theory Spec2Isabelle
  imports Main "HOL-Library.Word" "HOL-Library.AList"
begin

section \<open>Data model of \<open>cached_downloader.go\<close>\<close>

text \<open>
  Go's \<open>int64\<close> is a 64-bit word read as two's complement: \<open>+\<close> and \<open>-\<close> wrap, and the
  comparisons of the source are the signed ones (\<open><s\<close>). A \<open>time.Time\<close> is an instant on
  an integer time line; \<open>Before\<close> is \<open><\<close>, and the zero value of the type is instant \<open>0\<close>.
\<close>

type_synonym int64 = "64 word"
type_synonym time = int

record CachingInfoType =
  ETag :: string
  LastModified :: string

text \<open>The field \<open>size\<close> of the source is \<open>size_cf\<close> here (\<open>size\<close> is a constant of HOL).\<close>

record CachedFile =
  size_cf :: int64
  access :: time
  cachingInfo :: CachingInfoType
  filePath :: string

text \<open>
  \<open>map[string]CachedFile\<close> is an association list. Reading a missing key gives the zero
  value of \<open>CachedFile\<close>, assignment is \<open>AList.update\<close>, \<open>delete\<close> is \<open>AList.delete\<close>.
  The order of the list is not the order in which a \<open>range\<close> statement visits the map:
  that order is drawn anew by every \<open>range\<close> (see \<open>rangeOrder\<close> below).
\<close>

type_synonym cachedFilesMap = "(string \<times> CachedFile) list"

definition zeroCachedFile :: CachedFile where
  "zeroCachedFile =
     \<lparr>size_cf = 0, access = 0, cachingInfo = \<lparr>ETag = [], LastModified = []\<rparr>, filePath = []\<rparr>"

definition lookup :: "cachedFilesMap \<Rightarrow> string \<Rightarrow> CachedFile" where
  "lookup m k = (case map_of m k of None \<Rightarrow> zeroCachedFile | Some f \<Rightarrow> f)"

text \<open>
  The struct \<open>cachedDownloader\<close> without its lock and its downloader, together with the
  part of the world the code acts on: \<open>disk\<close> is the set of paths at which a file exists.
\<close>

record cachedDownloader =
  cachedPath :: string
  uncachedPath :: string
  maxSizeInBytes :: int64
  cachedFiles :: cachedFilesMap
  disk :: "string set"

section \<open>The environment\<close>

text \<open>
  Errors are values. What the program does not decide itself is an input of the model:
  \<^item> the platform, \<open>runtime.GOOS == "windows"\<close>;
  \<^item> the outcome of \<open>ioutil.TempFile\<close>: an error or the random part of the new name;
  \<^item> the collaborator \<open>Download\<close>: an error or \<open>didDownload\<close>, \<open>size\<close> and the new
    caching info, for a URL and the caching info it is given;
  \<^item> an error of \<open>os.Open\<close> or of \<open>Seek\<close> on a file that exists, and an error of
    \<open>os.Rename\<close> of a file that exists (a missing directory, another file system);
  \<^item> the clock: \<open>accessNow\<close> is read by \<open>recordAccessForCacheKey\<close>, \<open>evictClock i\<close> by
    round \<open>i\<close> of the eviction loop;
  \<^item> the order of each \<open>range\<close> over the map: the \<open>n\<close>-th \<open>range\<close> statement that
    \<open>moveFileIntoCache\<close> runs visits the entries sorted by the ranking \<open>rangeRank n\<close> of
    their keys. Every ranking gives an order of all entries, and every order of a map is
    given by a ranking.
\<close>

datatype error = TempFileCreationError | TransferError | OpenError | SeekError | RenameError

record Env =
  goos_windows :: bool
  tempFileOutcome :: "error + string"
  download :: "string \<Rightarrow> CachingInfoType \<Rightarrow> error + (bool \<times> int64 \<times> CachingInfoType)"
  openError :: "error option"
  seekError :: "error option"
  renameError :: "error option"
  accessNow :: time
  evictClock :: "nat \<Rightarrow> time"
  rangeRank :: "nat \<Rightarrow> string \<Rightarrow> nat"

definition rangeOrder :: "(string \<Rightarrow> nat) \<Rightarrow> cachedFilesMap \<Rightarrow> cachedFilesMap" where
  "rangeOrder rank m = sort_key (\<lambda>(ck, f). rank ck) m"

subsection \<open>The file system calls\<close>

text \<open>
  The paths of this program are regular files. On Windows a file cannot be removed while
  a handle on it is open: \<open>locked\<close> is the set of paths that the running call holds open
  there, and is empty on other platforms. \<open>os.Remove\<close> and \<open>os.RemoveAll\<close> of a locked
  path fail and leave the file; otherwise no file is left at the path. The code ignores
  the error. Handles that earlier calls returned to their callers are not part of the
  state.
\<close>

definition locked :: "Env \<Rightarrow> string set \<Rightarrow> string set" where
  "locked env held = (if goos_windows env then held else {})"

definition os_Remove :: "string set \<Rightarrow> string \<Rightarrow> string set \<Rightarrow> string set" where
  "os_Remove lck p d = (if p \<in> lck then d else d - {p})"

definition os_RemoveAll :: "string set \<Rightarrow> string \<Rightarrow> string set \<Rightarrow> string set" where
  "os_RemoveAll lck p d = (if p \<in> lck then d else d - {p})"

text \<open>
  \<open>os.Rename\<close> moves an existing file over the destination. It fails when there is no
  source or when the environment says so, and then changes nothing; the code ignores the
  error.
\<close>

definition os_Rename :: "error option \<Rightarrow> string \<Rightarrow> string \<Rightarrow> string set \<Rightarrow> string set" where
  "os_Rename err src dst d = (if err = None \<and> src \<in> d then insert dst (d - {src}) else d)"

subsection \<open>Package \<open>filepath\<close>, with the separator \<open>/\<close>\<close>

text \<open>The backslash separator and the volume names of Windows paths are not modelled.\<close>

text \<open>The elements of a path between its separators.\<close>

fun splitSep :: "string \<Rightarrow> string list" where
  "splitSep [] = [[]]"
| "splitSep (ch # cs) =
     (if ch = CHR ''/'' then [] # splitSep cs
      else (case splitSep cs of [] \<Rightarrow> [[ch]] | w # ws \<Rightarrow> (ch # w) # ws))"

fun joinSep :: "string list \<Rightarrow> string" where
  "joinSep [] = []"
| "joinSep [e] = e"
| "joinSep (e # e' # es) = e @ ''/'' @ joinSep (e' # es)"

text \<open>
  \<open>filepath.Clean\<close>: empty elements and \<open>.\<close> are dropped; \<open>..\<close> removes the element
  before it when that is not \<open>..\<close> itself, is dropped at the root, and is kept at the
  start of a path that is not rooted. \<open>out\<close> is the elements kept so far, last first.
\<close>

fun cleanElems :: "bool \<Rightarrow> string list \<Rightarrow> string list \<Rightarrow> string list" where
  "cleanElems rooted [] out = rev out"
| "cleanElems rooted (e # es) out =
     (if e = [] \<or> e = ''.'' then cleanElems rooted es out
      else if e = ''..'' then
        (case out of
           [] \<Rightarrow> if rooted then cleanElems rooted es out else cleanElems rooted es (e # out)
         | prev # rest \<Rightarrow>
             if prev = ''..'' then cleanElems rooted es (e # out) else cleanElems rooted es rest)
      else cleanElems rooted es (e # out))"

definition filepath_Clean :: "string \<Rightarrow> string" where
  "filepath_Clean p =
     (if p = [] then ''.''
      else let rooted = (hd p = CHR ''/'');
               body = joinSep (cleanElems rooted (splitSep p) [])
           in if rooted then CHR ''/'' # body
              else if body = [] then ''.'' else body)"

text \<open>
  \<open>filepath.Join\<close> of two elements: leading empty elements are skipped, the rest is
  joined with the separator and cleaned; nothing but empty elements gives the empty
  path.
\<close>

definition filepath_Join :: "string \<Rightarrow> string \<Rightarrow> string" where
  "filepath_Join a b =
     (if a \<noteq> [] then filepath_Clean (a @ ''/'' @ b)
      else if b \<noteq> [] then filepath_Clean b
      else [])"

text \<open>
  \<open>filepath.Base\<close>: trailing separators are dropped, the last element is returned; the
  empty path gives \<open>.\<close> and a path of separators only gives one separator.
\<close>

definition stripTrailingSep :: "string \<Rightarrow> string" where
  "stripTrailingSep p = rev (dropWhile (\<lambda>ch. ch = CHR ''/'') (rev p))"

definition filepath_Base :: "string \<Rightarrow> string" where
  "filepath_Base p =
     (if p = [] then ''.''
      else let q = stripTrailingSep p
           in if q = [] then ''/''
              else rev (takeWhile (\<lambda>ch. ch \<noteq> CHR ''/'') (rev q)))"

section \<open>The entry store\<close>

definition pathForCacheKey :: "cachedDownloader \<Rightarrow> string \<Rightarrow> string" where
  "pathForCacheKey c cacheKey = filePath (lookup (cachedFiles c) cacheKey)"

text \<open>
  \<open>removeCacheEntryFor\<close> and the eviction loop run after \<open>tempFile.Close()\<close> and before
  \<open>os.Open\<close>: the call holds no file open then.
\<close>

definition removeCacheEntryFor :: "cachedDownloader \<Rightarrow> string \<Rightarrow> cachedDownloader" where
  "removeCacheEntryFor c cacheKey =
     (let fp = pathForCacheKey c cacheKey;
          d = (if fp \<noteq> [] then os_Remove {} fp (disk c) else disk c)
      in c\<lparr>cachedFiles := AList.delete cacheKey (cachedFiles c), disk := d\<rparr>)"

text \<open>\<open>now\<close> is what \<open>time.Now()\<close> returns in the call.\<close>

definition recordAccessForCacheKey :: "time \<Rightarrow> cachedDownloader \<Rightarrow> string \<Rightarrow> cachedDownloader" where
  "recordAccessForCacheKey now c cacheKey =
     (let f = lookup (cachedFiles c) cacheKey
      in c\<lparr>cachedFiles := AList.update cacheKey (f\<lparr>access := now\<rparr>) (cachedFiles c)\<rparr>)"

definition cachingInfoForCacheKey :: "cachedDownloader \<Rightarrow> string \<Rightarrow> CachingInfoType" where
  "cachingInfoForCacheKey c cacheKey = cachingInfo (lookup (cachedFiles c) cacheKey)"

definition setCachingInfoForCacheKey ::
  "cachedDownloader \<Rightarrow> string \<Rightarrow> CachingInfoType \<Rightarrow> cachedDownloader" where
  "setCachingInfoForCacheKey c cacheKey ci =
     (let f = lookup (cachedFiles c) cacheKey
      in c\<lparr>cachedFiles := AList.update cacheKey (f\<lparr>cachingInfo := ci\<rparr>) (cachedFiles c)\<rparr>)"

subsection \<open>\<open>moveFileIntoCache\<close>\<close>

text \<open>
  The body of the first \<open>range\<close>: the sizes of the entries other than \<open>cacheKey\<close>, in the
  order they are visited, added to \<open>usedSpace\<close>.
\<close>

fun usedSpaceLoop :: "string \<Rightarrow> cachedFilesMap \<Rightarrow> int64 \<Rightarrow> int64" where
  "usedSpaceLoop cacheKey [] usedSpace = usedSpace"
| "usedSpaceLoop cacheKey ((ck, f) # rest) usedSpace =
     usedSpaceLoop cacheKey rest (if ck \<noteq> cacheKey then usedSpace + size_cf f else usedSpace)"

text \<open>
  The body of the inner \<open>range\<close> of the eviction: the pair
  \<open>(oldestAccessTime, oldestCacheKey)\<close> is replaced by every visited entry other than
  \<open>cacheKey\<close> that was accessed strictly before it.
\<close>

fun oldestLoop :: "string \<Rightarrow> cachedFilesMap \<Rightarrow> time \<times> string \<Rightarrow> time \<times> string" where
  "oldestLoop cacheKey [] acc = acc"
| "oldestLoop cacheKey ((ck, f) # rest) (oldestAccessTime, oldestCacheKey) =
     oldestLoop cacheKey rest
       (if ck \<noteq> cacheKey \<and> access f < oldestAccessTime then (access f, ck)
        else (oldestAccessTime, oldestCacheKey))"

text \<open>
  The eviction loop \<open>for c.maxSizeInBytes < usedSpace+size\<close>. Round \<open>i\<close> reads the clock as
  \<open>evictClock env i\<close> and ranges over the map in the order of \<open>rangeRank env (Suc i)\<close>.
  The loop need not end: the result \<open>None\<close> is the run that never leaves it.
\<close>

partial_function (option) evictLoop ::
  "Env \<Rightarrow> nat \<Rightarrow> string \<Rightarrow> int64 \<Rightarrow> int64 \<Rightarrow> cachedDownloader \<Rightarrow> cachedDownloader option"
where
  "evictLoop env i cacheKey sz usedSpace c =
     (if maxSizeInBytes c <s usedSpace + sz then
        (let oldestCacheKey =
               snd (oldestLoop cacheKey (rangeOrder (rangeRank env (Suc i)) (cachedFiles c))
                      (evictClock env i, []));
             usedSpace' = usedSpace - size_cf (lookup (cachedFiles c) oldestCacheKey);
             fp = pathForCacheKey c cacheKey;
             d = (if fp \<noteq> [] then os_RemoveAll {} fp (disk c) else disk c)
         in evictLoop env (Suc i) cacheKey sz usedSpace'
              (c\<lparr>cachedFiles := AList.delete cacheKey (cachedFiles c), disk := d\<rparr>))
      else Some c)"

text \<open>The result is the returned path and the downloader after the call.\<close>

definition moveFileIntoCache ::
  "Env \<Rightarrow> cachedDownloader \<Rightarrow> string \<Rightarrow> string \<Rightarrow> int64 \<Rightarrow> (string \<times> cachedDownloader) option"
where
  "moveFileIntoCache env c cacheKey sourcePath sz =
     (if maxSizeInBytes c <s sz then Some (sourcePath, c)
      else
        (case evictLoop env 0 cacheKey sz
                (usedSpaceLoop cacheKey (rangeOrder (rangeRank env 0) (cachedFiles c)) 0) c of
           None \<Rightarrow> None
         | Some c' \<Rightarrow>
             (let cachePath = filepath_Join (cachedPath c') (filepath_Base sourcePath);
                  f = lookup (cachedFiles c') cacheKey;
                  f' = f\<lparr>size_cf := sz, filePath := cachePath\<rparr>
              in Some (cachePath,
                       c'\<lparr>cachedFiles := AList.update cacheKey f' (cachedFiles c'),
                          disk := os_Rename (renameError env) sourcePath cachePath (disk c')\<rparr>))))"

section \<open>The fetch\<close>

text \<open>
  The function given to \<open>runtime.SetFinalizer\<close>, with the variables it captures. The
  returned \<open>*os.File\<close> is the path it was opened at and its finalizer. Both finalizers
  close their file before they remove it.
\<close>

datatype finalizer =
    NoFinalizer
  | CloseAndRemove string
  | CloseAndRemoveIfStale string string

record handle =
  h_path :: string
  h_finalizer :: finalizer

fun runFinalizer :: "finalizer \<Rightarrow> cachedDownloader \<Rightarrow> cachedDownloader" where
  "runFinalizer NoFinalizer c = c"
| "runFinalizer (CloseAndRemove path) c = c\<lparr>disk := os_RemoveAll {} path (disk c)\<rparr>"
| "runFinalizer (CloseAndRemoveIfStale cacheKey path) c =
     (let cf = lookup (cachedFiles c) cacheKey
      in if path \<noteq> filePath cf then c\<lparr>disk := os_RemoveAll {} path (disk c)\<rparr> else c)"

text \<open>The name of the file that \<open>ioutil.TempFile dir prefix\<close> creates.\<close>

definition ioutil_TempFile :: "string \<Rightarrow> string \<Rightarrow> string \<Rightarrow> string" where
  "ioutil_TempFile dir pre rnd = filepath_Join dir (pre @ rnd)"

text \<open>
  \<open>fetchUncachedFile\<close> never closes \<open>destinationFile\<close>: it is open when the file is
  removed after a failed download and when it is removed on a platform other than
  Windows.
\<close>

definition fetchUncachedFile ::
  "Env \<Rightarrow> cachedDownloader \<Rightarrow> string \<Rightarrow> (error + handle) \<times> cachedDownloader" where
  "fetchUncachedFile env c url =
     (case tempFileOutcome env of
        Inl err \<Rightarrow> (Inl err, c)
      | Inr rnd \<Rightarrow>
          (let destinationFileName = ioutil_TempFile (uncachedPath c) ''uncached'' rnd;
               c1 = c\<lparr>disk := insert destinationFileName (disk c)\<rparr>;
               lck = locked env {destinationFileName}
           in case download env url \<lparr>ETag = [], LastModified = []\<rparr> of
                Inl err \<Rightarrow>
                  (Inl err, c1\<lparr>disk := os_RemoveAll lck destinationFileName (disk c1)\<rparr>)
              | Inr _ \<Rightarrow>
                  if goos_windows env
                  then (Inr \<lparr>h_path = destinationFileName,
                              h_finalizer = CloseAndRemove destinationFileName\<rparr>, c1)
                  else (Inr \<lparr>h_path = destinationFileName, h_finalizer = NoFinalizer\<rparr>,
                        c1\<lparr>disk := os_RemoveAll lck destinationFileName (disk c1)\<rparr>)))"

text \<open>
  Lines 122 to 155 of \<open>fetchCachedFile\<close>: open \<open>path\<close>, seek, and on Windows set the
  finalizer. \<open>os.Open\<close> fails where no file exists. The second component is the set of
  paths at which the call holds a file open when it returns: the opened file, also when
  the seek fails.
\<close>

definition openPath ::
  "Env \<Rightarrow> cachedDownloader \<Rightarrow> string \<Rightarrow> string \<Rightarrow> string \<Rightarrow> (error + handle) \<times> string set" where
  "openPath env c cacheKey tempFileName path =
     (if path \<notin> disk c then (Inl OpenError, {})
      else case openError env of
        Some err \<Rightarrow> (Inl err, {})
      | None \<Rightarrow>
         (case seekError env of
            Some err \<Rightarrow> (Inl err, {path})
          | None \<Rightarrow>
              (Inr \<lparr>h_path = path,
                    h_finalizer =
                      (if goos_windows env
                       then (if path = tempFileName then CloseAndRemove path
                             else CloseAndRemoveIfStale cacheKey path)
                       else NoFinalizer)\<rparr>, {path})))"

text \<open>
  Lines 103 to 155: everything after the temporary file exists. \<open>path\<close> is the path read
  from the store before. The result is what is returned, the downloader, and the paths
  the call holds open at the return: the temporary file when the download fails (it is
  closed only after a download that succeeds), else what \<open>openPath\<close> opened. \<open>None\<close> is a
  call that never returns.
\<close>

definition fetchIntoTempFile ::
  "Env \<Rightarrow> cachedDownloader \<Rightarrow> string \<Rightarrow> string \<Rightarrow> string \<Rightarrow> string \<Rightarrow>
     ((error + handle) \<times> cachedDownloader \<times> string set) option" where
  "fetchIntoTempFile env c url cacheKey path tempFileName =
     (case download env url (cachingInfoForCacheKey c cacheKey) of
        Inl err \<Rightarrow> Some (Inl err, c, {tempFileName})
      | Inr (didDownload, sz, ci) \<Rightarrow>
          (case (if didDownload
                 then (if ETag ci = [] \<and> LastModified ci = []
                       then Some (tempFileName, removeCacheEntryFor c cacheKey)
                       else moveFileIntoCache env
                              (setCachingInfoForCacheKey c cacheKey ci) cacheKey tempFileName sz)
                 else Some (path, c)) of
             None \<Rightarrow> None
           | Some (path', c') \<Rightarrow>
               (case openPath env c' cacheKey tempFileName path' of
                  (r, held) \<Rightarrow> Some (r, c', held))))"

text \<open>
  \<open>fetchCachedFile\<close>. The deferred \<open>os.RemoveAll(tempFileName)\<close> runs at every return that
  follows the creation of the temporary file, with the files open that the call holds
  then.
\<close>

definition fetchCachedFile ::
  "Env \<Rightarrow> cachedDownloader \<Rightarrow> string \<Rightarrow> string \<Rightarrow>
     ((error + handle) \<times> cachedDownloader) option" where
  "fetchCachedFile env c url cacheKey =
     (let c1 = recordAccessForCacheKey (accessNow env) c cacheKey;
          path = pathForCacheKey c1 cacheKey
      in case tempFileOutcome env of
           Inl err \<Rightarrow> Some (Inl err, c1)
         | Inr rnd \<Rightarrow>
             (let tempFileName = ioutil_TempFile (uncachedPath c1) (cacheKey @ ''-'') rnd;
                  c2 = c1\<lparr>disk := insert tempFileName (disk c1)\<rparr>
              in map_option
                   (\<lambda>(r, c', held).
                      (r, c'\<lparr>disk := os_RemoveAll (locked env held) tempFileName (disk c')\<rparr>))
                   (fetchIntoTempFile env c2 url cacheKey path tempFileName)))"

text \<open>
  \<open>Fetch\<close>. \<open>md5hex\<close> is \<open>fmt.Sprintf("%x", md5.Sum([]byte(cacheKey)))\<close>, a function of
  the standard library that is a parameter here.
\<close>

definition Fetch ::
  "(string \<Rightarrow> string) \<Rightarrow> Env \<Rightarrow> cachedDownloader \<Rightarrow> string \<Rightarrow> string \<Rightarrow>
     ((error + handle) \<times> cachedDownloader) option" where
  "Fetch md5hex env c url cacheKey =
     (if cacheKey = [] then Some (fetchUncachedFile env c url)
      else fetchCachedFile env c url (md5hex cacheKey))"

section \<open>Measures and example states\<close>

text \<open>The sum of the recorded sizes of all entries of the store, as integers.\<close>

definition residentSize :: "cachedFilesMap \<Rightarrow> int" where
  "residentSize m = sum_list (map (\<lambda>(ck, f). sint (size_cf f)) m)"

text \<open>A clock that is later than every access time of the examples below.\<close>

definition ex_clock :: "nat \<Rightarrow> time" where
  "ex_clock i = 10 + int i"

text \<open>
  An environment for examples: a platform and a download outcome, with a temporary file
  \<open>2\<close>, no error of open, seek or rename, the clock at 5 for the access and \<open>ex_clock\<close> for
  the eviction, and every \<open>range\<close> in the order of the list. \<open>ex_range_env rank\<close> is the same
  off Windows with the orders of \<open>range\<close> taken from \<open>rank\<close>.
\<close>

definition ex_env ::
  "bool \<Rightarrow> error + (bool \<times> int64 \<times> CachingInfoType) \<Rightarrow> Env" where
  "ex_env windows outcome =
     \<lparr>goos_windows = windows, tempFileOutcome = Inr ''2'', download = (\<lambda>url ci. outcome),
      openError = None, seekError = None, renameError = None, accessNow = 5,
      evictClock = ex_clock, rangeRank = (\<lambda>n ck. 0)\<rparr>"

definition ex_range_env :: "(nat \<Rightarrow> string \<Rightarrow> nat) \<Rightarrow> Env" where
  "ex_range_env rank = (ex_env False (Inl TransferError))\<lparr>rangeRank := rank\<rparr>"

text \<open>
  The store of the LRU example: \<open>a\<close> (40 bytes, accessed at 1) and \<open>b\<close> (50 bytes,
  accessed at 2) are cached, the capacity is 100, and a fetch of \<open>c\<close> has recorded its
  access at 3, stored its caching info and downloaded 20 bytes to \<open>/tmp/c-7\<close>.
\<close>

definition ex_lru :: cachedDownloader where
  "ex_lru =
     \<lparr>cachedPath = ''/cache'', uncachedPath = ''/tmp'', maxSizeInBytes = 100,
      cachedFiles =
        [(''a'', \<lparr>size_cf = 40, access = 1, cachingInfo = \<lparr>ETag = ''ea'', LastModified = []\<rparr>,
                  filePath = ''/cache/a-1''\<rparr>),
         (''b'', \<lparr>size_cf = 50, access = 2, cachingInfo = \<lparr>ETag = ''eb'', LastModified = []\<rparr>,
                  filePath = ''/cache/b-1''\<rparr>),
         (''c'', \<lparr>size_cf = 0, access = 3, cachingInfo = \<lparr>ETag = ''ec'', LastModified = []\<rparr>,
                  filePath = []\<rparr>)],
      disk = {''/cache/a-1'', ''/cache/b-1'', ''/tmp/c-7''}\<rparr>"

definition ex_lru1 :: cachedDownloader where
  "ex_lru1 = ex_lru\<lparr>cachedFiles := AList.delete ''c'' (cachedFiles ex_lru)\<rparr>"

text \<open>
  The same with an oldest entry \<open>a\<close> of recorded size 0 and no file, as an earlier fetch
  of \<open>a\<close> leaves it when its transfer fails after the access was recorded.
\<close>

definition ex_zero :: cachedDownloader where
  "ex_zero =
     \<lparr>cachedPath = ''/cache'', uncachedPath = ''/tmp'', maxSizeInBytes = 100,
      cachedFiles =
        [(''a'', \<lparr>size_cf = 0, access = 1, cachingInfo = \<lparr>ETag = [], LastModified = []\<rparr>,
                  filePath = []\<rparr>),
         (''b'', \<lparr>size_cf = 90, access = 2, cachingInfo = \<lparr>ETag = ''eb'', LastModified = []\<rparr>,
                  filePath = ''/cache/b-1''\<rparr>),
         (''c'', \<lparr>size_cf = 0, access = 3, cachingInfo = \<lparr>ETag = ''ec'', LastModified = []\<rparr>,
                  filePath = []\<rparr>)],
      disk = {''/cache/b-1'', ''/tmp/c-7''}\<rparr>"

definition ex_zero1 :: cachedDownloader where
  "ex_zero1 = ex_zero\<lparr>cachedFiles := AList.delete ''c'' (cachedFiles ex_zero)\<rparr>"

text \<open>
  States of single fetches of the key \<open>k\<close>, cached at \<open>/cache/k-1\<close> with 10 bytes.
  \<open>ex_md5hex\<close> stands for the hash of the key.
\<close>

definition ex_md5hex :: "string \<Rightarrow> string" where
  "ex_md5hex s = s"

definition ex_store :: cachedDownloader where
  "ex_store =
     \<lparr>cachedPath = ''/cache'', uncachedPath = ''/tmp'', maxSizeInBytes = 100,
      cachedFiles =
        [(''k'', \<lparr>size_cf = 10, access = 1, cachingInfo = \<lparr>ETag = ''e1'', LastModified = []\<rparr>,
                  filePath = ''/cache/k-1''\<rparr>)],
      disk = {''/cache/k-1''}\<rparr>"

definition ex_store_accessed :: cachedDownloader where
  "ex_store_accessed =
     \<lparr>cachedPath = ''/cache'', uncachedPath = ''/tmp'', maxSizeInBytes = 100,
      cachedFiles =
        [(''k'', \<lparr>size_cf = 10, access = 5, cachingInfo = \<lparr>ETag = ''e1'', LastModified = []\<rparr>,
                  filePath = ''/cache/k-1''\<rparr>)],
      disk = {''/cache/k-1''}\<rparr>"

text \<open>
  The fetch of a new version of \<open>k\<close> has recorded the access at 5 and the new caching
  info, and downloaded 10 bytes to \<open>/tmp/k-2\<close>; and the state after its admission.
\<close>

definition ex_readmit :: cachedDownloader where
  "ex_readmit =
     \<lparr>cachedPath = ''/cache'', uncachedPath = ''/tmp'', maxSizeInBytes = 100,
      cachedFiles =
        [(''k'', \<lparr>size_cf = 10, access = 5, cachingInfo = \<lparr>ETag = ''e2'', LastModified = []\<rparr>,
                  filePath = ''/cache/k-1''\<rparr>)],
      disk = {''/cache/k-1'', ''/tmp/k-2''}\<rparr>"

definition ex_readmitted :: cachedDownloader where
  "ex_readmitted =
     \<lparr>cachedPath = ''/cache'', uncachedPath = ''/tmp'', maxSizeInBytes = 100,
      cachedFiles =
        [(''k'', \<lparr>size_cf = 10, access = 5, cachingInfo = \<lparr>ETag = ''e2'', LastModified = []\<rparr>,
                  filePath = ''/cache/k-2''\<rparr>)],
      disk = {''/cache/k-1'', ''/cache/k-2''}\<rparr>"

text \<open>
  A download that behaves as an origin does: given no caching info it delivers 10 bytes,
  given any it reports that nothing changed.
\<close>

definition ex_origin_env :: "bool \<Rightarrow> Env" where
  "ex_origin_env windows =
     (ex_env windows (Inl TransferError))
       \<lparr>download := (\<lambda>url ci. if ci = \<lparr>ETag = [], LastModified = []\<rparr>
                               then Inr (True, 10, ci) else Inr (False, 0, ci))\<rparr>"

section \<open>Basic facts\<close>

lemma lookup_update:
  "lookup (AList.update k v m) k' = (if k' = k then v else lookup m k')"
  by (simp add: lookup_def update_conv')

lemma lookup_delete:
  "lookup (AList.delete k m) k' = (if k' = k then zeroCachedFile else lookup m k')"
  by (simp add: lookup_def delete_conv')

subsection \<open>The order of a \<open>range\<close>\<close>

lemma set_rangeOrder: "set (rangeOrder rank m) = set m"
  by (simp add: rangeOrder_def)

lemma usedSpaceLoop_sum:
  "usedSpaceLoop k m u = u + sum_list (map (\<lambda>(ck, f). if ck \<noteq> k then size_cf f else 0) m)"
  by (induction m arbitrary: u) (auto simp: add.assoc)

lemma sum_list_insort_key:
  fixes g :: "'a \<Rightarrow> int64"
  shows "sum_list (map g (insort_key r x xs)) = g x + sum_list (map g xs)"
  by (induction xs) (simp_all add: add.left_commute)

lemma sum_list_sort_key:
  fixes g :: "'a \<Rightarrow> int64"
  shows "sum_list (map g (sort_key r xs)) = sum_list (map g xs)"
  by (induction xs) (simp_all add: sum_list_insort_key)

text \<open>The first loop adds the same sizes up in whatever order it visits the map.\<close>

lemma usedSpaceLoop_rangeOrder:
  "usedSpaceLoop k (rangeOrder rank m) u = usedSpaceLoop k m u"
  by (simp add: usedSpaceLoop_sum rangeOrder_def sum_list_sort_key)

lemma oldestLoop_none_older:
  "\<forall>(k, f) \<in> set m. k \<noteq> cacheKey \<longrightarrow> \<not> access f < t \<Longrightarrow>
     oldestLoop cacheKey m (t, k0) = (t, k0)"
  by (induction m) auto

text \<open>
  When one entry other than \<open>cacheKey\<close> was accessed before the clock and strictly before
  every other such entry, the inner loop finds it in whatever order it visits the map.
\<close>

lemma oldestLoop_strict_oldest:
  assumes "(k0, f0) \<in> set m" and "k0 \<noteq> cacheKey" and "access f0 < t"
    and "\<forall>(k, f) \<in> set m. k \<noteq> cacheKey \<longrightarrow> (k, f) = (k0, f0) \<or> access f0 < access f"
  shows "oldestLoop cacheKey m (t, k') = (access f0, k0)"
  using assms
proof (induction m arbitrary: t k')
  case Nil
  then show ?case by simp
next
  case (Cons e m)
  obtain k f where e: "e = (k, f)" by (cases e)
  show ?case
  proof (cases "e = (k0, f0)")
    case True
    have "\<forall>(k, f) \<in> set m. k \<noteq> cacheKey \<longrightarrow> \<not> access f < access f0"
      using Cons.prems(4) by fastforce
    from oldestLoop_none_older[OF this] True Cons.prems(2,3) show ?thesis
      by simp
  next
    case False
    with Cons.prems(1) have in_m: "(k0, f0) \<in> set m" by simp
    have rest: "\<forall>(k, f) \<in> set m. k \<noteq> cacheKey \<longrightarrow> (k, f) = (k0, f0) \<or> access f0 < access f"
      using Cons.prems(4) by simp
    show ?thesis
    proof (cases "k \<noteq> cacheKey \<and> access f < t")
      case True
      with Cons.prems(4) False e have "access f0 < access f" by auto
      from Cons.IH[OF in_m Cons.prems(2) this rest] True e show ?thesis by simp
    next
      case no: False
      from Cons.IH[OF in_m Cons.prems(2,3) rest] no e show ?thesis by auto
    qed
  qed
qed

subsection \<open>The eviction loop\<close>

lemma evictLoop_exit:
  "\<not> maxSizeInBytes c <s usedSpace + sz \<Longrightarrow> evictLoop env i cacheKey sz usedSpace c = Some c"
  by (subst evictLoop.simps) simp

lemma evictLoop_step:
  "maxSizeInBytes c <s usedSpace + sz \<Longrightarrow>
   evictLoop env i cacheKey sz usedSpace c =
     evictLoop env (Suc i) cacheKey sz
       (usedSpace - size_cf (lookup (cachedFiles c)
           (snd (oldestLoop cacheKey (rangeOrder (rangeRank env (Suc i)) (cachedFiles c))
                   (evictClock env i, [])))))
       (c\<lparr>cachedFiles := AList.delete cacheKey (cachedFiles c),
          disk := (if pathForCacheKey c cacheKey \<noteq> []
                   then os_RemoveAll {} (pathForCacheKey c cacheKey) (disk c)
                   else disk c)\<rparr>)"
  by (subst evictLoop.simps) (simp add: Let_def)

lemma moveFileIntoCache_refuse:
  "maxSizeInBytes c <s sz \<Longrightarrow> moveFileIntoCache env c cacheKey sourcePath sz = Some (sourcePath, c)"
  by (simp add: moveFileIntoCache_def)

lemma moveFileIntoCache_admit:
  assumes "\<not> maxSizeInBytes c <s sz"
    and "evictLoop env 0 cacheKey sz (usedSpaceLoop cacheKey (cachedFiles c) 0) c = Some c'"
  shows "moveFileIntoCache env c cacheKey sourcePath sz =
    Some (filepath_Join (cachedPath c') (filepath_Base sourcePath),
      c'\<lparr>cachedFiles :=
           AList.update cacheKey
             ((lookup (cachedFiles c') cacheKey)
                \<lparr>size_cf := sz,
                 filePath := filepath_Join (cachedPath c') (filepath_Base sourcePath)\<rparr>)
             (cachedFiles c'),
         disk := os_Rename (renameError env) sourcePath
                   (filepath_Join (cachedPath c') (filepath_Base sourcePath)) (disk c')\<rparr>)"
  unfolding moveFileIntoCache_def using assms by (simp add: Let_def usedSpaceLoop_rangeOrder)

text \<open>
  Whatever the eviction loop does, the only key it removes from the map is \<open>cacheKey\<close>:
  a call of \<open>moveFileIntoCache\<close> that returns leaves the mapping of every other key as it
  was.
\<close>

lemma evictLoop_entries:
  assumes "evictLoop env i cacheKey sz usedSpace c = Some c'"
  shows "cachedFiles c' = cachedFiles c \<or> cachedFiles c' = AList.delete cacheKey (cachedFiles c)"
proof (rule evictLoop.raw_induct[OF _ assms])
  fix lp :: "Env \<Rightarrow> nat \<Rightarrow> string \<Rightarrow> int64 \<Rightarrow> int64 \<Rightarrow> cachedDownloader \<Rightarrow> cachedDownloader option"
  fix env i cacheKey sz usedSpace c c'
  assume IH: "\<And>env i cacheKey sz usedSpace c c'. lp env i cacheKey sz usedSpace c = Some c' \<Longrightarrow>
     cachedFiles c' = cachedFiles c \<or> cachedFiles c' = AList.delete cacheKey (cachedFiles c)"
  assume step: "(if maxSizeInBytes c <s usedSpace + sz
        then let oldestCacheKey =
                   snd (oldestLoop cacheKey (rangeOrder (rangeRank env (Suc i)) (cachedFiles c))
                          (evictClock env i, []));
                 usedSpace' = usedSpace - size_cf (lookup (cachedFiles c) oldestCacheKey);
                 fp = pathForCacheKey c cacheKey;
                 d = if fp \<noteq> [] then os_RemoveAll {} fp (disk c) else disk c
             in lp env (Suc i) cacheKey sz usedSpace'
                 (c\<lparr>cachedFiles := AList.delete cacheKey (cachedFiles c), disk := d\<rparr>)
        else Some c) = Some c'"
  show "cachedFiles c' = cachedFiles c \<or> cachedFiles c' = AList.delete cacheKey (cachedFiles c)"
  proof (cases "maxSizeInBytes c <s usedSpace + sz")
    case True
    with step have "lp env (Suc i) cacheKey sz
        (usedSpace - size_cf (lookup (cachedFiles c)
           (snd (oldestLoop cacheKey (rangeOrder (rangeRank env (Suc i)) (cachedFiles c))
                   (evictClock env i, [])))))
        (c\<lparr>cachedFiles := AList.delete cacheKey (cachedFiles c),
           disk := (if pathForCacheKey c cacheKey \<noteq> []
                    then os_RemoveAll {} (pathForCacheKey c cacheKey) (disk c)
                    else disk c)\<rparr>) = Some c'"
      by (simp add: Let_def)
    from IH[OF this] show ?thesis
      by (auto simp: delete_idem)
  next
    case False
    with step show ?thesis by simp
  qed
qed

lemma moveFileIntoCache_evicts_no_other_entry:
  assumes "moveFileIntoCache env c cacheKey sourcePath sz = Some (p, c')"
    and "k \<noteq> cacheKey"
  shows "map_of (cachedFiles c') k = map_of (cachedFiles c) k"
proof (cases "maxSizeInBytes c <s sz")
  case True
  with assms show ?thesis by (simp add: moveFileIntoCache_refuse)
next
  case False
  with assms obtain c1 where
    e: "evictLoop env 0 cacheKey sz (usedSpaceLoop cacheKey (cachedFiles c) 0) c = Some c1"
    by (auto simp: moveFileIntoCache_def usedSpaceLoop_rangeOrder split: option.splits)
  from evictLoop_entries[OF e] have "map_of (cachedFiles c1) k = map_of (cachedFiles c) k"
    using assms(2) by (auto simp: delete_conv')
  with assms show ?thesis
    unfolding moveFileIntoCache_admit[OF False e] by (auto simp: update_conv')
qed

text \<open>
  When the size fits and no round of the eviction runs, the only change to the disk is the
  rename of the source: every other file stays, the file of a prior entry of the key
  included.
\<close>

lemma moveFileIntoCache_no_round:
  assumes "\<not> maxSizeInBytes c <s sz"
    and "\<not> maxSizeInBytes c <s usedSpaceLoop cacheKey (cachedFiles c) 0 + sz"
    and "moveFileIntoCache env c cacheKey sourcePath sz = Some (p, c')"
  shows "disk c' = os_Rename (renameError env) sourcePath p (disk c)"
    and "q \<in> disk c \<Longrightarrow> q \<noteq> sourcePath \<Longrightarrow> q \<in> disk c'"
proof -
  have e: "evictLoop env 0 cacheKey sz (usedSpaceLoop cacheKey (cachedFiles c) 0) c = Some c"
    using assms(2) by (rule evictLoop_exit)
  from assms(3) show d: "disk c' = os_Rename (renameError env) sourcePath p (disk c)"
    unfolding moveFileIntoCache_admit[OF assms(1) e] by auto
  show "q \<in> disk c \<Longrightarrow> q \<noteq> sourcePath \<Longrightarrow> q \<in> disk c'"
    unfolding d by (simp add: os_Rename_def)
qed

subsection \<open>The LRU example, run\<close>

lemma ex_range_env_simps:
  "evictClock (ex_range_env rank) = ex_clock"
  "rangeRank (ex_range_env rank) = rank"
  "renameError (ex_range_env rank) = None"
  by (simp_all add: ex_range_env_def ex_env_def)

lemma base_c7: "filepath_Join ''/cache'' (filepath_Base ''/tmp/c-7'') = ''/cache/c-7''"
  by (simp add: filepath_Join_def filepath_Base_def stripTrailingSep_def filepath_Clean_def)

lemma ex_lru_used: "usedSpaceLoop ''c'' (cachedFiles ex_lru) 0 = 90"
  by (simp add: ex_lru_def)

lemma ex_lru_oldest:
  "oldestLoop ''c'' (rangeOrder r (cachedFiles ex_lru)) (ex_clock i, []) = (1, ''a'')"
proof -
  let ?fa = "\<lparr>size_cf = 40, access = 1, cachingInfo = \<lparr>ETag = ''ea'', LastModified = []\<rparr>,
              filePath = ''/cache/a-1''\<rparr>"
  have "oldestLoop ''c'' (rangeOrder r (cachedFiles ex_lru)) (ex_clock i, []) = (access ?fa, ''a'')"
    by (rule oldestLoop_strict_oldest)
       (simp_all add: set_rangeOrder ex_lru_def ex_clock_def)
  then show ?thesis by simp
qed

lemma ex_lru_round1:
  "evictLoop (ex_range_env rank) 0 ''c'' 20 90 ex_lru =
     evictLoop (ex_range_env rank) (Suc 0) ''c'' 20 50 ex_lru1"
  apply (subst evictLoop_step)
   apply (simp add: ex_lru_def)
  apply (simp add: ex_range_env_simps ex_lru_oldest)
  apply (simp add: ex_lru1_def ex_lru_def lookup_def pathForCacheKey_def)
  done

lemma ex_lru_round2: "evictLoop (ex_range_env rank) (Suc 0) ''c'' 20 50 ex_lru1 = Some ex_lru1"
  apply (subst evictLoop_exit)
   apply (simp add: ex_lru_def ex_lru1_def)
  apply simp
  done

lemma ex_lru_rename:
  "os_Rename None ''/tmp/c-7'' ''/cache/c-7'' (disk ex_lru1) =
     {''/cache/a-1'', ''/cache/b-1'', ''/cache/c-7''}"
  unfolding ex_lru1_def ex_lru_def os_Rename_def by auto

lemma ex_lru_lookup: "lookup (cachedFiles ex_lru1) ''c'' = zeroCachedFile"
  unfolding ex_lru1_def ex_lru_def by (simp add: lookup_def)

lemma ex_lru_admit:
  "moveFileIntoCache (ex_range_env rank) ex_lru ''c'' ''/tmp/c-7'' 20 =
    Some (''/cache/c-7'',
      ex_lru1\<lparr>cachedFiles :=
                AList.update ''c'' (zeroCachedFile\<lparr>size_cf := 20, filePath := ''/cache/c-7''\<rparr>)
                  (cachedFiles ex_lru1),
              disk := {''/cache/a-1'', ''/cache/b-1'', ''/cache/c-7''}\<rparr>)"
proof -
  have a: "\<not> maxSizeInBytes ex_lru <s 20"
    by (simp add: ex_lru_def)
  have b: "evictLoop (ex_range_env rank) 0 ''c'' 20 (usedSpaceLoop ''c'' (cachedFiles ex_lru) 0) ex_lru
      = Some ex_lru1"
    by (simp only: ex_lru_used ex_lru_round1 ex_lru_round2)
  have c: "cachedPath ex_lru1 = ''/cache''"
    by (simp add: ex_lru1_def ex_lru_def)
  show ?thesis
    by (simp only: moveFileIntoCache_admit[OF a b] c base_c7 ex_lru_rename ex_lru_lookup
        ex_range_env_simps)
qed

text \<open>
  C1. On the code, the eviction round of the LRU example (\<open>a\<close> of 40 bytes accessed at 1,
  \<open>b\<close> of 50 bytes accessed at 2, capacity 100, \<open>c\<close> of 20 bytes admitted) takes the size
  of the oldest entry \<open>a\<close> off \<open>usedSpace\<close> but removes the mapping of \<open>c\<close> itself: in
  whatever order the map is ranged over, the call returns with \<open>a\<close>, \<open>b\<close> and \<open>c\<close> all
  resident, the file of \<open>a\<close> still on disk, and the access time and caching info of \<open>c\<close>
  reset to their zero values.
\<close>

theorem lru_example_keeps_oldest:
  "moveFileIntoCache (ex_range_env rank) ex_lru ''c'' ''/tmp/c-7'' 20 =
     Some (''/cache/c-7'',
       \<lparr>cachedPath = ''/cache'', uncachedPath = ''/tmp'', maxSizeInBytes = 100,
        cachedFiles =
          [(''a'', \<lparr>size_cf = 40, access = 1, cachingInfo = \<lparr>ETag = ''ea'', LastModified = []\<rparr>,
                    filePath = ''/cache/a-1''\<rparr>),
           (''b'', \<lparr>size_cf = 50, access = 2, cachingInfo = \<lparr>ETag = ''eb'', LastModified = []\<rparr>,
                    filePath = ''/cache/b-1''\<rparr>),
           (''c'', \<lparr>size_cf = 20, access = 0, cachingInfo = \<lparr>ETag = [], LastModified = []\<rparr>,
                    filePath = ''/cache/c-7''\<rparr>)],
        disk = {''/cache/a-1'', ''/cache/b-1'', ''/cache/c-7''}\<rparr>)"
  unfolding ex_lru_admit
  by (simp add: ex_lru1_def ex_lru_def zeroCachedFile_def)

text \<open>
  C2. On the code, the same admission of an entry of 20 bytes, which fits the capacity of
  100 bytes, returns with 110 bytes of recorded sizes resident in the store.
\<close>

theorem lru_example_exceeds_capacity:
  "\<exists>p c'. moveFileIntoCache (ex_range_env rank) ex_lru ''c'' ''/tmp/c-7'' 20 = Some (p, c')
     \<and> residentSize (cachedFiles c') = 110
     \<and> sint (maxSizeInBytes c') = 100
     \<and> map fst (cachedFiles c') = [''a'', ''b'', ''c'']"
  unfolding ex_lru_admit
  by (simp add: ex_lru1_def ex_lru_def zeroCachedFile_def residentSize_def)

subsection \<open>An oldest entry of size 0\<close>

lemma ex_zero_oldest:
  "oldestLoop ''c'' (rangeOrder r (cachedFiles ex_zero)) (ex_clock i, []) = (1, ''a'')"
proof -
  let ?fa = "\<lparr>size_cf = 0, access = 1, cachingInfo = \<lparr>ETag = [], LastModified = []\<rparr>,
              filePath = []\<rparr>"
  have "oldestLoop ''c'' (rangeOrder r (cachedFiles ex_zero)) (ex_clock i, []) = (access ?fa, ''a'')"
    by (rule oldestLoop_strict_oldest)
       (simp_all add: set_rangeOrder ex_zero_def ex_clock_def)
  then show ?thesis by simp
qed

lemma ex_zero1_oldest:
  "oldestLoop ''c'' (rangeOrder r (cachedFiles ex_zero1)) (ex_clock i, []) = (1, ''a'')"
proof -
  let ?fa = "\<lparr>size_cf = 0, access = 1, cachingInfo = \<lparr>ETag = [], LastModified = []\<rparr>,
              filePath = []\<rparr>"
  have "oldestLoop ''c'' (rangeOrder r (cachedFiles ex_zero1)) (ex_clock i, []) = (access ?fa, ''a'')"
    by (rule oldestLoop_strict_oldest)
       (simp_all add: set_rangeOrder ex_zero1_def ex_zero_def ex_clock_def)
  then show ?thesis by simp
qed

lemma ex_zero_round1:
  "evictLoop (ex_range_env rank) 0 ''c'' 20 90 ex_zero =
     evictLoop (ex_range_env rank) (Suc 0) ''c'' 20 90 ex_zero1"
  apply (subst evictLoop_step)
   apply (simp add: ex_zero_def)
  apply (simp add: ex_range_env_simps ex_zero_oldest)
  apply (simp add: ex_zero_def ex_zero1_def lookup_def pathForCacheKey_def)
  done

lemma ex_zero1_next:
  "ex_zero1\<lparr>cachedFiles := AList.delete ''c'' (cachedFiles ex_zero1),
            disk := (if pathForCacheKey ex_zero1 ''c'' \<noteq> []
                     then os_RemoveAll {} (pathForCacheKey ex_zero1 ''c'') (disk ex_zero1)
                     else disk ex_zero1)\<rparr> = ex_zero1"
  by (simp add: ex_zero1_def ex_zero_def pathForCacheKey_def lookup_def zeroCachedFile_def)

lemma ex_zero1_facts:
  "maxSizeInBytes ex_zero1 <s 110"
  "size_cf (lookup (cachedFiles ex_zero1) ''a'') = 0"
  by (simp_all add: ex_zero1_def ex_zero_def lookup_def)

text \<open>
  From the second round on nothing changes: the size taken off \<open>usedSpace\<close> is 0 and the
  key that is deleted is not in the map. No run that starts there returns.
\<close>

lemma ex_zero_never:
  assumes "evictLoop env i cacheKey sz usedSpace c = Some y"
  shows "\<not> (env = ex_range_env rank \<and> cacheKey = ''c'' \<and> sz = 20 \<and> usedSpace = 90 \<and> c = ex_zero1)"
proof (rule evictLoop.raw_induct[OF _ assms])
  fix lp :: "Env \<Rightarrow> nat \<Rightarrow> string \<Rightarrow> int64 \<Rightarrow> int64 \<Rightarrow> cachedDownloader \<Rightarrow> cachedDownloader option"
  fix env i cacheKey sz usedSpace c y
  assume IH: "\<And>env i cacheKey sz usedSpace c y. lp env i cacheKey sz usedSpace c = Some y \<Longrightarrow>
     \<not> (env = ex_range_env rank \<and> cacheKey = ''c'' \<and> sz = 20 \<and> usedSpace = 90 \<and> c = ex_zero1)"
  assume step: "(if maxSizeInBytes c <s usedSpace + sz
        then let oldestCacheKey =
                   snd (oldestLoop cacheKey (rangeOrder (rangeRank env (Suc i)) (cachedFiles c))
                          (evictClock env i, []));
                 usedSpace' = usedSpace - size_cf (lookup (cachedFiles c) oldestCacheKey);
                 fp = pathForCacheKey c cacheKey;
                 d = if fp \<noteq> [] then os_RemoveAll {} fp (disk c) else disk c
             in lp env (Suc i) cacheKey sz usedSpace'
                 (c\<lparr>cachedFiles := AList.delete cacheKey (cachedFiles c), disk := d\<rparr>)
        else Some c) = Some y"
  show "\<not> (env = ex_range_env rank \<and> cacheKey = ''c'' \<and> sz = 20 \<and> usedSpace = 90 \<and> c = ex_zero1)"
  proof
    assume inv: "env = ex_range_env rank \<and> cacheKey = ''c'' \<and> sz = 20 \<and> usedSpace = 90 \<and> c = ex_zero1"
    then have e: "env = ex_range_env rank" "cacheKey = ''c''" "sz = 20" "usedSpace = 90"
      "c = ex_zero1"
      by simp_all
    have "lp (ex_range_env rank) (Suc i) ''c'' 20 90 ex_zero1 = Some y"
      using step unfolding e
      by (simp add: Let_def ex_zero1_facts ex_range_env_simps ex_zero1_oldest ex_zero1_next)
    from IH[OF this] show False by simp
  qed
qed

text \<open>
  C3. On the code, the admission of 20 bytes under \<open>c\<close> into a store of capacity 100 that
  holds \<open>a\<close> (size 0, the oldest) and \<open>b\<close> (90 bytes) never returns, in whatever order the
  map is ranged over: every round takes the 0 bytes of \<open>a\<close> off \<open>usedSpace\<close> and deletes
  \<open>c\<close>.
\<close>

theorem zero_size_oldest_never_returns:
  "moveFileIntoCache (ex_range_env rank) ex_zero ''c'' ''/tmp/c-7'' 20 = None"
proof -
  have a: "\<not> maxSizeInBytes ex_zero <s 20"
    by (simp add: ex_zero_def)
  have u: "usedSpaceLoop ''c'' (cachedFiles ex_zero) 0 = 90"
    by (simp add: ex_zero_def)
  have "evictLoop (ex_range_env rank) (Suc 0) ''c'' 20 90 ex_zero1 = None"
    using ex_zero_never[of "ex_range_env rank" "Suc 0" "''c''" 20 90 ex_zero1 _ rank]
    by (cases "evictLoop (ex_range_env rank) (Suc 0) ''c'' 20 90 ex_zero1") auto
  then have "evictLoop (ex_range_env rank) 0 ''c'' 20
      (usedSpaceLoop ''c'' (rangeOrder (rangeRank (ex_range_env rank) 0) (cachedFiles ex_zero)) 0)
      ex_zero = None"
    by (simp only: usedSpaceLoop_rangeOrder u ex_zero_round1)
  then show ?thesis
    unfolding moveFileIntoCache_def using a by simp
qed

section \<open>The fetch paths\<close>

lemma recordAccess_fields [simp]:
  "cachedPath (recordAccessForCacheKey now c k) = cachedPath c"
  "uncachedPath (recordAccessForCacheKey now c k) = uncachedPath c"
  "maxSizeInBytes (recordAccessForCacheKey now c k) = maxSizeInBytes c"
  "disk (recordAccessForCacheKey now c k) = disk c"
  by (simp_all add: recordAccessForCacheKey_def Let_def)

lemma recordAccess_lookup:
  "lookup (cachedFiles (recordAccessForCacheKey now c k)) k' =
     (if k' = k then (lookup (cachedFiles c) k)\<lparr>access := now\<rparr> else lookup (cachedFiles c) k')"
  by (simp add: recordAccessForCacheKey_def Let_def lookup_update)

lemma setCachingInfo_fields [simp]:
  "cachedPath (setCachingInfoForCacheKey c k ci) = cachedPath c"
  "uncachedPath (setCachingInfoForCacheKey c k ci) = uncachedPath c"
  "maxSizeInBytes (setCachingInfoForCacheKey c k ci) = maxSizeInBytes c"
  "disk (setCachingInfoForCacheKey c k ci) = disk c"
  by (simp_all add: setCachingInfoForCacheKey_def Let_def)

lemma setCachingInfo_lookup:
  "lookup (cachedFiles (setCachingInfoForCacheKey c k ci)) k' =
     (if k' = k then (lookup (cachedFiles c) k)\<lparr>cachingInfo := ci\<rparr> else lookup (cachedFiles c) k')"
  by (simp add: setCachingInfoForCacheKey_def Let_def lookup_update)

lemma setCachingInfo_disk_update:
  "cachedFiles (setCachingInfoForCacheKey (c\<lparr>disk := d\<rparr>) k ci) =
     cachedFiles (setCachingInfoForCacheKey c k ci)"
  by (simp add: setCachingInfoForCacheKey_def Let_def)

lemma residentSize_update:
  "size_cf v = size_cf (lookup m k) \<Longrightarrow> residentSize (AList.update k v m) = residentSize m"
  by (induction m) (auto simp: residentSize_def lookup_def zeroCachedFile_def)

lemma residentSize_recordAccess:
  "residentSize (cachedFiles (recordAccessForCacheKey now c k)) = residentSize (cachedFiles c)"
  by (simp add: recordAccessForCacheKey_def Let_def residentSize_update)

lemma keys_update: "fst ` set (AList.update k v m) = insert k (fst ` set m)"
  by (induction m) auto

lemma setCachingInfo_keys:
  "fst ` set (cachedFiles (setCachingInfoForCacheKey c k ci)) = insert k (fst ` set (cachedFiles c))"
  by (simp add: setCachingInfoForCacheKey_def Let_def keys_update)

lemma recordAccess_keys:
  "fst ` set (cachedFiles (recordAccessForCacheKey now c k)) = insert k (fst ` set (cachedFiles c))"
  by (simp add: recordAccessForCacheKey_def Let_def keys_update)




lemma os_RemoveAll_unlocked: "p \<notin> lck \<Longrightarrow> os_RemoveAll lck p d = d - {p}"
  by (simp add: os_RemoveAll_def)

lemma os_RemoveAll_locked: "p \<in> lck \<Longrightarrow> os_RemoveAll lck p d = d"
  by (simp add: os_RemoveAll_def)

text \<open>\<open>fetchCachedFile\<close> once the temporary file exists.\<close>

lemma fetchCachedFile_temp:
  assumes "tempFileOutcome env = Inr rnd"
  shows "fetchCachedFile env c url cacheKey =
     map_option
       (\<lambda>(r, c', held).
          (r, c'\<lparr>disk := os_RemoveAll (locked env held)
                            (ioutil_TempFile (uncachedPath c) (cacheKey @ ''-'') rnd) (disk c')\<rparr>))
       (fetchIntoTempFile env
          ((recordAccessForCacheKey (accessNow env) c cacheKey)
             \<lparr>disk := insert (ioutil_TempFile (uncachedPath c) (cacheKey @ ''-'') rnd) (disk c)\<rparr>)
          url cacheKey (pathForCacheKey c cacheKey)
          (ioutil_TempFile (uncachedPath c) (cacheKey @ ''-'') rnd))"
  using assms
  by (simp add: fetchCachedFile_def Let_def pathForCacheKey_def recordAccess_lookup)

lemma openPath_Inr:
  "openPath env c cacheKey tempFileName path = (Inr h, held) \<Longrightarrow>
     h_path h = path \<and> path \<in> disk c \<and> held = {path} \<and>
     h_finalizer h =
       (if goos_windows env
        then (if path = tempFileName then CloseAndRemove path
              else CloseAndRemoveIfStale cacheKey path)
        else NoFinalizer)"
  by (auto simp: openPath_def split: if_splits option.splits)

lemma openPath_ok:
  "path \<in> disk c \<Longrightarrow> openError env = None \<Longrightarrow> seekError env = None \<Longrightarrow>
     \<exists>h. openPath env c cacheKey tempFileName path = (Inr h, {path})"
  by (simp add: openPath_def)

lemma openPath_held:
  "openPath env c cacheKey tempFileName path = (r, held) \<Longrightarrow> held \<subseteq> {path}"
  by (auto simp: openPath_def split: if_splits option.splits)

lemma openPath_held_open:
  "openPath env c cacheKey tempFileName path = (r, held) \<Longrightarrow> path \<in> disk c \<Longrightarrow>
     held = (if openError env = None then {path} else {})"
  by (auto simp: openPath_def split: if_splits option.splits)

text \<open>
  C8. A \<open>Fetch\<close> with a non-empty cache key whose temporary file is created and whose
  download reports \<open>didDownload = false\<close> returns; a handle it returns is opened at the
  path the store held for the key (and one is returned when that file exists and neither
  open nor seek fails); that path stays the store's path for the key; the temporary file is
  removed and no other file is (on Windows this needs that the handle is not open at the
  temporary file itself, that is, that the store's path is not the new temporary name);
  the sum of the recorded sizes and the caching info of the key are what they were; and
  the access time of the key is the reading of the clock.
\<close>

theorem unchanged_serves_tracked_path:
  assumes key: "cacheKey \<noteq> []"
    and tmp: "tempFileOutcome env = Inr rnd"
    and dl: "download env url (cachingInfoForCacheKey c (md5hex cacheKey)) = Inr (False, sz, ci)"
  shows "\<exists>r c'. Fetch md5hex env c url cacheKey = Some (r, c')
     \<and> (\<forall>h. r = Inr h \<longrightarrow> h_path h = pathForCacheKey c (md5hex cacheKey))
     \<and> (pathForCacheKey c (md5hex cacheKey) \<in> disk c \<and> openError env = None \<and> seekError env = None
          \<longrightarrow> (\<exists>h. r = Inr h))
     \<and> pathForCacheKey c' (md5hex cacheKey) = pathForCacheKey c (md5hex cacheKey)
     \<and> (pathForCacheKey c (md5hex cacheKey)
            \<noteq> ioutil_TempFile (uncachedPath c) (md5hex cacheKey @ ''-'') rnd
          \<or> \<not> goos_windows env \<longrightarrow>
          disk c' = disk c - {ioutil_TempFile (uncachedPath c) (md5hex cacheKey @ ''-'') rnd})
     \<and> residentSize (cachedFiles c') = residentSize (cachedFiles c)
     \<and> cachingInfoForCacheKey c' (md5hex cacheKey) = cachingInfoForCacheKey c (md5hex cacheKey)
     \<and> access (lookup (cachedFiles c') (md5hex cacheKey)) = accessNow env"
proof -
  let ?k = "md5hex cacheKey"
  let ?t = "ioutil_TempFile (uncachedPath c) (?k @ ''-'') rnd"
  let ?p = "pathForCacheKey c ?k"
  let ?c2 = "(recordAccessForCacheKey (accessNow env) c ?k)\<lparr>disk := insert ?t (disk c)\<rparr>"
  obtain r held where op: "openPath env ?c2 ?k ?t ?p = (r, held)"
    by (cases "openPath env ?c2 ?k ?t ?p")
  have ci: "cachingInfoForCacheKey ?c2 ?k = cachingInfoForCacheKey c ?k"
    by (simp add: cachingInfoForCacheKey_def recordAccess_lookup)
  have body: "fetchIntoTempFile env ?c2 url ?k ?p ?t = Some (r, ?c2, held)"
    by (simp add: fetchIntoTempFile_def ci dl op)
  have F: "Fetch md5hex env c url cacheKey =
      Some (r, ?c2\<lparr>disk := os_RemoveAll (locked env held) ?t (disk ?c2)\<rparr>)"
    using key by (simp add: Fetch_def fetchCachedFile_temp[OF tmp] body)
  have h: "\<And>h. r = Inr h \<Longrightarrow> h_path h = ?p"
    using openPath_Inr[of env ?c2 ?k ?t ?p] op by simp
  have ok: "?p \<in> disk c \<Longrightarrow> openError env = None \<Longrightarrow> seekError env = None \<Longrightarrow> \<exists>h. r = Inr h"
    using openPath_ok[of ?p ?c2 env ?k ?t] op by auto
  have d: "?p \<noteq> ?t \<or> \<not> goos_windows env \<Longrightarrow>
      os_RemoveAll (locked env held) ?t (insert ?t (disk c)) = disk c - {?t}"
    using openPath_held[OF op]
    by (subst os_RemoveAll_unlocked) (auto simp: locked_def)
  show ?thesis
    unfolding F using h ok d
    by (auto simp: pathForCacheKey_def cachingInfoForCacheKey_def
        recordAccess_lookup residentSize_recordAccess)
qed



text \<open>
  C5. When the size exceeds \<open>maxSizeInBytes\<close>, \<open>moveFileIntoCache\<close> returns the source
  path and changes nothing: no round of the eviction runs and nothing is recorded. A
  \<open>fetchCachedFile\<close> whose download delivers such a size with caching info returns, and
  the entry map after it is the one its own two writes before the admission leave (the
  access time, and the new caching info that line 115 stores under the key): the entry
  of the key is the prior one with these two fields set, every other entry is as it was,
  the path and the size of every entry are what they were, and no key is removed. A
  handle it returns is opened at the temporary file with the unconditional finalizer on
  Windows (one is returned when neither open nor seek fails). The temporary file is
  removed at the return, except on Windows when it was opened: there it stays until the
  finalizer of the handle removes it.
\<close>

theorem oversized_refused_and_served_untracked:
  assumes big: "maxSizeInBytes c <s sz"
    and tmp: "tempFileOutcome env = Inr rnd"
    and dl: "download env url (cachingInfoForCacheKey c cacheKey) = Inr (True, sz, ci)"
    and val: "ETag ci \<noteq> [] \<or> LastModified ci \<noteq> []"
  shows "moveFileIntoCache env c cacheKey sourcePath sz = Some (sourcePath, c)
    \<and> (\<exists>r c'. fetchCachedFile env c url cacheKey = Some (r, c')
         \<and> cachedFiles c' =
             cachedFiles (setCachingInfoForCacheKey
               (recordAccessForCacheKey (accessNow env) c cacheKey) cacheKey ci)
         \<and> lookup (cachedFiles c') cacheKey =
             (lookup (cachedFiles c) cacheKey)\<lparr>access := accessNow env, cachingInfo := ci\<rparr>
         \<and> (\<forall>k. k \<noteq> cacheKey \<longrightarrow> lookup (cachedFiles c') k = lookup (cachedFiles c) k)
         \<and> (\<forall>k. pathForCacheKey c' k = pathForCacheKey c k)
         \<and> (\<forall>k. size_cf (lookup (cachedFiles c') k) = size_cf (lookup (cachedFiles c) k))
         \<and> fst ` set (cachedFiles c') = insert cacheKey (fst ` set (cachedFiles c))
         \<and> disk c' =
             (if goos_windows env \<and> openError env = None
              then insert (ioutil_TempFile (uncachedPath c) (cacheKey @ ''-'') rnd) (disk c)
              else disk c - {ioutil_TempFile (uncachedPath c) (cacheKey @ ''-'') rnd})
         \<and> (\<forall>h. r = Inr h \<longrightarrow>
               h_path h = ioutil_TempFile (uncachedPath c) (cacheKey @ ''-'') rnd
             \<and> h_finalizer h = (if goos_windows env then CloseAndRemove (h_path h) else NoFinalizer)
             \<and> h_path h \<notin> disk (runFinalizer (h_finalizer h) c'))
         \<and> (openError env = None \<and> seekError env = None \<longrightarrow> (\<exists>h. r = Inr h)))"
proof
  show "moveFileIntoCache env c cacheKey sourcePath sz = Some (sourcePath, c)"
    using big by (rule moveFileIntoCache_refuse)
next
  let ?t = "ioutil_TempFile (uncachedPath c) (cacheKey @ ''-'') rnd"
  let ?c1 = "recordAccessForCacheKey (accessNow env) c cacheKey"
  let ?c2 = "?c1\<lparr>disk := insert ?t (disk c)\<rparr>"
  let ?c3 = "setCachingInfoForCacheKey ?c2 cacheKey ci"
  obtain r held where op: "openPath env ?c3 cacheKey ?t ?t = (r, held)"
    by (cases "openPath env ?c3 cacheKey ?t ?t")
  have ci: "cachingInfoForCacheKey ?c2 cacheKey = cachingInfoForCacheKey c cacheKey"
    by (simp add: cachingInfoForCacheKey_def recordAccess_lookup)
  have big3: "maxSizeInBytes ?c3 <s sz"
    using big by simp
  have body: "fetchIntoTempFile env ?c2 url cacheKey (pathForCacheKey c cacheKey) ?t =
      Some (r, ?c3, held)"
    using val by (auto simp: fetchIntoTempFile_def ci dl moveFileIntoCache_refuse[OF big3] op)
  have F: "fetchCachedFile env c url cacheKey =
      Some (r, ?c3\<lparr>disk := os_RemoveAll (locked env held) ?t (disk ?c3)\<rparr>)"
    by (simp add: fetchCachedFile_temp[OF tmp] body)
  have files: "cachedFiles ?c3 = cachedFiles (setCachingInfoForCacheKey ?c1 cacheKey ci)"
    by (rule setCachingInfo_disk_update)
  have keys: "fst ` set (cachedFiles ?c3) = insert cacheKey (fst ` set (cachedFiles c))"
    by (simp add: setCachingInfo_keys recordAccess_keys)
  have held: "held = (if openError env = None then {?t} else {})"
    using openPath_held_open[OF op] by simp
  have d: "os_RemoveAll (locked env held) ?t (insert ?t (disk c)) =
      (if goos_windows env \<and> openError env = None then insert ?t (disk c) else disk c - {?t})"
    by (auto simp: held locked_def os_RemoveAll_def)
  let ?c' = "?c3\<lparr>disk := os_RemoveAll (locked env held) ?t (disk ?c3)\<rparr>"
  have p1: "cachedFiles ?c' = cachedFiles (setCachingInfoForCacheKey ?c1 cacheKey ci)"
    by (simp add: files)
  have p2: "lookup (cachedFiles ?c') cacheKey =
      (lookup (cachedFiles c) cacheKey)\<lparr>access := accessNow env, cachingInfo := ci\<rparr>"
    by (simp add: setCachingInfo_lookup recordAccess_lookup)
  have p3: "\<forall>k. k \<noteq> cacheKey \<longrightarrow> lookup (cachedFiles ?c') k = lookup (cachedFiles c) k"
    by (simp add: setCachingInfo_lookup recordAccess_lookup)
  have p4: "\<forall>k. pathForCacheKey ?c' k = pathForCacheKey c k"
    by (simp add: pathForCacheKey_def setCachingInfo_lookup recordAccess_lookup)
  have p5: "\<forall>k. size_cf (lookup (cachedFiles ?c') k) = size_cf (lookup (cachedFiles c) k)"
    by (simp add: setCachingInfo_lookup recordAccess_lookup)
  have p6: "fst ` set (cachedFiles ?c') = insert cacheKey (fst ` set (cachedFiles c))"
    by (simp add: keys)
  have p7: "disk ?c' =
      (if goos_windows env \<and> openError env = None then insert ?t (disk c) else disk c - {?t})"
    by (simp add: d)
  have h: "\<And>h. r = Inr h \<Longrightarrow> h_path h = ?t
      \<and> h_finalizer h = (if goos_windows env then CloseAndRemove (h_path h) else NoFinalizer)
      \<and> openError env = None"
    using op by (auto simp: openPath_def split: if_splits option.splits)
  have p8: "\<forall>h. r = Inr h \<longrightarrow>
               h_path h = ?t
             \<and> h_finalizer h = (if goos_windows env then CloseAndRemove (h_path h) else NoFinalizer)
             \<and> h_path h \<notin> disk (runFinalizer (h_finalizer h) ?c')"
  proof (intro allI impI)
    fix h assume "r = Inr h"
    from h[OF this] show "h_path h = ?t
             \<and> h_finalizer h = (if goos_windows env then CloseAndRemove (h_path h) else NoFinalizer)
             \<and> h_path h \<notin> disk (runFinalizer (h_finalizer h) ?c')"
      by (cases "goos_windows env") (simp_all add: locked_def os_RemoveAll_def)
  qed
  have p9: "openError env = None \<and> seekError env = None \<longrightarrow> (\<exists>h. r = Inr h)"
    using openPath_ok[of ?t ?c3 env cacheKey ?t] op by auto
  show "\<exists>r c'. fetchCachedFile env c url cacheKey = Some (r, c')
         \<and> cachedFiles c' = cachedFiles (setCachingInfoForCacheKey ?c1 cacheKey ci)
         \<and> lookup (cachedFiles c') cacheKey =
             (lookup (cachedFiles c) cacheKey)\<lparr>access := accessNow env, cachingInfo := ci\<rparr>
         \<and> (\<forall>k. k \<noteq> cacheKey \<longrightarrow> lookup (cachedFiles c') k = lookup (cachedFiles c) k)
         \<and> (\<forall>k. pathForCacheKey c' k = pathForCacheKey c k)
         \<and> (\<forall>k. size_cf (lookup (cachedFiles c') k) = size_cf (lookup (cachedFiles c) k))
         \<and> fst ` set (cachedFiles c') = insert cacheKey (fst ` set (cachedFiles c))
         \<and> disk c' =
             (if goos_windows env \<and> openError env = None then insert ?t (disk c)
              else disk c - {?t})
         \<and> (\<forall>h. r = Inr h \<longrightarrow>
               h_path h = ?t
             \<and> h_finalizer h = (if goos_windows env then CloseAndRemove (h_path h) else NoFinalizer)
             \<and> h_path h \<notin> disk (runFinalizer (h_finalizer h) c'))
         \<and> (openError env = None \<and> seekError env = None \<longrightarrow> (\<exists>h. r = Inr h))"
    using F p1 p2 p3 p4 p5 p6 p7 p8 p9 by blast
qed

text \<open>
  C10. \<open>Fetch\<close> with the empty cache key returns, and everything but the disk is as before
  the call, the entry map included. What it returns does not depend on the entry map or
  on the capacity. When the temporary file cannot be created, that error is returned and
  nothing has changed. Else \<open>Download\<close> is given the empty caching info, whatever the
  store holds: its error is returned, and when it succeeds a handle is returned, opened at
  the temporary file. On Windows that file is on disk at the return and the handle
  carries the finalizer that removes it; elsewhere the file is removed at once. After the
  finalizer of a returned handle no file is left at its path, and the entry map is still
  the one before the call.
\<close>

theorem bypass_leaves_store_unchanged:
  "\<exists>r c'. Fetch md5hex env c url [] = Some (r, c')
     \<and> c'\<lparr>disk := disk c\<rparr> = c
     \<and> (\<forall>m n. map_option fst (Fetch md5hex env (c\<lparr>cachedFiles := m, maxSizeInBytes := n\<rparr>) url [])
               = Some r)
     \<and> (\<forall>e. tempFileOutcome env = Inl e \<longrightarrow> r = Inl e \<and> c' = c)
     \<and> (\<forall>rnd e. tempFileOutcome env = Inr rnd
           \<and> download env url \<lparr>ETag = [], LastModified = []\<rparr> = Inl e \<longrightarrow> r = Inl e)
     \<and> (\<forall>rnd x. tempFileOutcome env = Inr rnd
           \<and> download env url \<lparr>ETag = [], LastModified = []\<rparr> = Inr x \<longrightarrow>
             r = Inr \<lparr>h_path = ioutil_TempFile (uncachedPath c) ''uncached'' rnd,
                      h_finalizer =
                        (if goos_windows env
                         then CloseAndRemove (ioutil_TempFile (uncachedPath c) ''uncached'' rnd)
                         else NoFinalizer)\<rparr>
           \<and> disk c' =
               (if goos_windows env
                then insert (ioutil_TempFile (uncachedPath c) ''uncached'' rnd) (disk c)
                else disk c - {ioutil_TempFile (uncachedPath c) ''uncached'' rnd}))
     \<and> (\<forall>h. r = Inr h \<longrightarrow>
           h_path h \<notin> disk (runFinalizer (h_finalizer h) c')
         \<and> cachedFiles (runFinalizer (h_finalizer h) c') = cachedFiles c)"
  by (auto simp: Fetch_def fetchUncachedFile_def Let_def os_RemoveAll_def locked_def
      split: sum.splits if_splits)

text \<open>
  Off Windows, an error of \<open>Fetch\<close> after its temporary file was created leaves no file at
  the name of the temporary file.
\<close>

lemma failed_fetch_removes_temp_file_off_windows:
  assumes ret: "Fetch md5hex env c url cacheKey = Some (Inl err, c')"
    and tmp: "tempFileOutcome env = Inr rnd"
    and unix: "\<not> goos_windows env"
  shows "ioutil_TempFile (uncachedPath c)
           (if cacheKey = [] then ''uncached'' else md5hex cacheKey @ ''-'') rnd \<notin> disk c'"
proof (cases "cacheKey = []")
  case True
  with ret tmp unix show ?thesis
    by (auto simp: Fetch_def fetchUncachedFile_def Let_def os_RemoveAll_def locked_def
        split: sum.splits if_splits)
next
  case False
  with ret tmp unix show ?thesis
    by (auto simp: Fetch_def fetchCachedFile_temp[OF tmp] os_RemoveAll_def locked_def)
qed

section \<open>The examples, run\<close>

lemma base_k2: "filepath_Join ''/cache'' (filepath_Base ''/tmp/k-2'') = ''/cache/k-2''"
  by (simp add: filepath_Join_def filepath_Base_def stripTrailingSep_def filepath_Clean_def)

lemma temp_k2: "ioutil_TempFile ''/tmp'' ''k-'' ''2'' = ''/tmp/k-2''"
  by (simp add: ioutil_TempFile_def filepath_Join_def filepath_Clean_def)

lemma temp_uncached: "ioutil_TempFile ''/tmp'' ''uncached'' ''2'' = ''/tmp/uncached2''"
  by (simp add: ioutil_TempFile_def filepath_Join_def filepath_Clean_def)

lemma ex_store_simps:
  "uncachedPath ex_store = ''/tmp''"
  "maxSizeInBytes ex_store = 100"
  "disk ex_store = {''/cache/k-1''}"
  "pathForCacheKey ex_store ''k'' = ''/cache/k-1''"
  "cachingInfoForCacheKey ex_store ''k'' = \<lparr>ETag = ''e1'', LastModified = []\<rparr>"
  "residentSize (cachedFiles ex_store) = 10"
  by (simp_all add: ex_store_def pathForCacheKey_def cachingInfoForCacheKey_def lookup_def
      residentSize_def)

lemma ex_env_simps:
  "goos_windows (ex_env w out) = w"
  "tempFileOutcome (ex_env w out) = Inr ''2''"
  "download (ex_env w out) url ci = out"
  "openError (ex_env w out) = None"
  "seekError (ex_env w out) = None"
  "renameError (ex_env w out) = None"
  "accessNow (ex_env w out) = 5"
  by (simp_all add: ex_env_def)

lemma ex_origin_env_simps:
  "goos_windows (ex_origin_env w) = w"
  "tempFileOutcome (ex_origin_env w) = Inr ''2''"
  "download (ex_origin_env w) url \<lparr>ETag = [], LastModified = []\<rparr> =
     Inr (True, 10, \<lparr>ETag = [], LastModified = []\<rparr>)"
  by (simp_all add: ex_origin_env_def ex_env_def)

lemma ex_readmit_admit:
  "moveFileIntoCache (ex_env w out) ex_readmit ''k'' ''/tmp/k-2'' 10 =
     Some (''/cache/k-2'', ex_readmitted)"
proof -
  have f: "\<not> maxSizeInBytes ex_readmit <s 10"
    by (simp add: ex_readmit_def)
  have "\<not> maxSizeInBytes ex_readmit <s usedSpaceLoop ''k'' (cachedFiles ex_readmit) 0 + 10"
    by (simp add: ex_readmit_def)
  then have e: "evictLoop (ex_env w out) 0 ''k'' 10
      (usedSpaceLoop ''k'' (cachedFiles ex_readmit) 0) ex_readmit = Some ex_readmit"
    by (rule evictLoop_exit)
  have c: "cachedPath ex_readmit = ''/cache''"
    by (simp add: ex_readmit_def)
  show ?thesis
    unfolding moveFileIntoCache_admit[OF f e] c base_k2
    by (auto simp: ex_readmit_def ex_readmitted_def lookup_def os_Rename_def ex_env_simps)
qed

lemma ex_store_before_admit:
  "setCachingInfoForCacheKey
     ((recordAccessForCacheKey 5 ex_store ''k'')\<lparr>disk := insert ''/tmp/k-2'' (disk ex_store)\<rparr>)
     ''k'' \<lparr>ETag = ''e2'', LastModified = []\<rparr> = ex_readmit"
  by (auto simp: setCachingInfoForCacheKey_def recordAccessForCacheKey_def Let_def lookup_def
      ex_store_def ex_readmit_def)

lemma ex_fetch_readmit:
  "fetchCachedFile (ex_env False (Inr (True, 10, \<lparr>ETag = ''e2'', LastModified = []\<rparr>)))
     ex_store ''u'' ''k'' =
     Some (Inr \<lparr>h_path = ''/cache/k-2'', h_finalizer = NoFinalizer\<rparr>, ex_readmitted)"
proof -
  let ?E = "ex_env False (Inr (True, 10, \<lparr>ETag = ''e2'', LastModified = []\<rparr>))"
  have tmp: "tempFileOutcome ?E = Inr ''2''"
    by (simp add: ex_env_simps)
  have op: "openPath ?E ex_readmitted ''k'' ''/tmp/k-2'' ''/cache/k-2'' =
      (Inr \<lparr>h_path = ''/cache/k-2'', h_finalizer = NoFinalizer\<rparr>, {''/cache/k-2''})"
    by (simp add: openPath_def ex_env_simps ex_readmitted_def)
  have body: "fetchIntoTempFile ?E
      ((recordAccessForCacheKey 5 ex_store ''k'')\<lparr>disk := insert ''/tmp/k-2'' (disk ex_store)\<rparr>)
      ''u'' ''k'' ''/cache/k-1'' ''/tmp/k-2'' =
      Some (Inr \<lparr>h_path = ''/cache/k-2'', h_finalizer = NoFinalizer\<rparr>, ex_readmitted,
            {''/cache/k-2''})"
    by (simp add: fetchIntoTempFile_def ex_env_simps ex_store_before_admit ex_readmit_admit op)
  show ?thesis
    unfolding fetchCachedFile_temp[OF tmp]
    by (simp add: ex_env_simps ex_store_simps(1,4) temp_k2 body locked_def os_RemoveAll_def)
       (simp add: ex_readmitted_def)
qed

text \<open>
  C4. On the code, the re-admission of \<open>k\<close>, cached at \<open>/cache/k-1\<close>, from the temporary
  file \<open>/tmp/k-2\<close> records the new path \<open>/cache/k-2\<close> under \<open>k\<close> and leaves the file of
  the prior entry on disk, where no entry refers to it any more. So does the whole fetch
  off Windows, whose handle has no finalizer.
\<close>

theorem readmission_prior_file_remains:
  "moveFileIntoCache (ex_env False (Inr (True, 10, \<lparr>ETag = ''e2'', LastModified = []\<rparr>)))
     ex_readmit ''k'' ''/tmp/k-2'' 10 = Some (''/cache/k-2'', ex_readmitted)
   \<and> fetchCachedFile (ex_env False (Inr (True, 10, \<lparr>ETag = ''e2'', LastModified = []\<rparr>)))
       ex_store ''u'' ''k'' =
       Some (Inr \<lparr>h_path = ''/cache/k-2'', h_finalizer = NoFinalizer\<rparr>, ex_readmitted)
   \<and> pathForCacheKey ex_readmit ''k'' = ''/cache/k-1''
   \<and> ''/cache/k-1'' \<in> disk ex_readmit
   \<and> pathForCacheKey ex_readmitted ''k'' = ''/cache/k-2''
   \<and> map (\<lambda>(ck, f). filePath f) (cachedFiles ex_readmitted) = [''/cache/k-2'']
   \<and> ''/cache/k-1'' \<in> disk ex_readmitted"
  by (simp add: ex_readmit_admit ex_fetch_readmit)
     (simp add: pathForCacheKey_def lookup_def ex_readmit_def ex_readmitted_def)

text \<open>
  C9. On the code on Windows, a \<open>Fetch\<close> whose download fails returns the error with the
  temporary file still on disk: the file is open when it is removed (it is closed only
  after a download that succeeds, and never by \<open>fetchUncachedFile\<close>), so the removal
  fails. This is so with a cache key and without one.
\<close>

theorem failed_transfer_leaves_temp_file_on_windows:
  "Fetch ex_md5hex (ex_env True (Inl TransferError)) ex_store ''u'' ''k'' =
     Some (Inl TransferError, ex_store_accessed\<lparr>disk := {''/cache/k-1'', ''/tmp/k-2''}\<rparr>)
   \<and> ''/tmp/k-2'' \<notin> disk ex_store
   \<and> Fetch ex_md5hex (ex_env True (Inl TransferError)) ex_store ''u'' [] =
     Some (Inl TransferError, ex_store\<lparr>disk := {''/cache/k-1'', ''/tmp/uncached2''}\<rparr>)
   \<and> ''/tmp/uncached2'' \<notin> disk ex_store"
proof -
  let ?E = "ex_env True (Inl TransferError)"
  have tmp: "tempFileOutcome ?E = Inr ''2''"
    by (simp add: ex_env_simps)
  have a: "Fetch ex_md5hex ?E ex_store ''u'' ''k'' =
     Some (Inl TransferError, ex_store_accessed\<lparr>disk := {''/cache/k-1'', ''/tmp/k-2''}\<rparr>)"
    by (simp add: Fetch_def ex_md5hex_def fetchCachedFile_temp[OF tmp] fetchIntoTempFile_def
        ex_env_simps ex_store_simps temp_k2 locked_def os_RemoveAll_def)
       (auto simp: recordAccessForCacheKey_def Let_def lookup_def ex_store_def ex_store_accessed_def)
  have b: "Fetch ex_md5hex ?E ex_store ''u'' [] =
     Some (Inl TransferError, ex_store\<lparr>disk := {''/cache/k-1'', ''/tmp/uncached2''}\<rparr>)"
    by (auto simp: Fetch_def fetchUncachedFile_def Let_def ex_env_simps ex_store_simps
        temp_uncached locked_def os_RemoveAll_def insert_commute)
  show ?thesis
    by (simp add: a b ex_store_simps)
qed

theorem oversized_refused_and_served_untracked_witness:
  "maxSizeInBytes ex_store <s 200
   \<and> tempFileOutcome (ex_env True (Inr (True, 200, \<lparr>ETag = ''e2'', LastModified = []\<rparr>))) = Inr ''2''
   \<and> download (ex_env True (Inr (True, 200, \<lparr>ETag = ''e2'', LastModified = []\<rparr>))) ''u''
        (cachingInfoForCacheKey ex_store ''k'') = Inr (True, 200, \<lparr>ETag = ''e2'', LastModified = []\<rparr>)
   \<and> moveFileIntoCache (ex_env True (Inr (True, 200, \<lparr>ETag = ''e2'', LastModified = []\<rparr>)))
        ex_store ''k'' ''/tmp/k-2'' 200 = Some (''/tmp/k-2'', ex_store)
   \<and> (\<exists>h c'. fetchCachedFile (ex_env True (Inr (True, 200, \<lparr>ETag = ''e2'', LastModified = []\<rparr>)))
                 ex_store ''u'' ''k'' = Some (Inr h, c')
         \<and> h_path h = ''/tmp/k-2'' \<and> h_finalizer h = CloseAndRemove ''/tmp/k-2''
         \<and> lookup (cachedFiles c') ''k'' =
             \<lparr>size_cf = 10, access = 5, cachingInfo = \<lparr>ETag = ''e2'', LastModified = []\<rparr>,
              filePath = ''/cache/k-1''\<rparr>
         \<and> disk c' = {''/cache/k-1'', ''/tmp/k-2''}
         \<and> ''/tmp/k-2'' \<notin> disk (runFinalizer (h_finalizer h) c'))
   \<and> (\<exists>h c'. fetchCachedFile (ex_env False (Inr (True, 200, \<lparr>ETag = ''e2'', LastModified = []\<rparr>)))
                 ex_store ''u'' ''k'' = Some (Inr h, c')
         \<and> h_path h = ''/tmp/k-2'' \<and> h_finalizer h = NoFinalizer
         \<and> pathForCacheKey c' ''k'' = ''/cache/k-1''
         \<and> disk c' = {''/cache/k-1''})"
proof -
  let ?ci = "\<lparr>ETag = ''e2'', LastModified = []\<rparr>"
  have l: "lookup (cachedFiles ex_store) ''k'' =
      \<lparr>size_cf = 10, access = 1, cachingInfo = \<lparr>ETag = ''e1'', LastModified = []\<rparr>,
       filePath = ''/cache/k-1''\<rparr>"
    by (simp add: lookup_def ex_store_def)
  have w: "\<exists>h c'. fetchCachedFile (ex_env True (Inr (True, 200, ?ci))) ex_store ''u'' ''k''
                 = Some (Inr h, c')
         \<and> h_path h = ''/tmp/k-2'' \<and> h_finalizer h = CloseAndRemove ''/tmp/k-2''
         \<and> lookup (cachedFiles c') ''k'' =
             \<lparr>size_cf = 10, access = 5, cachingInfo = ?ci, filePath = ''/cache/k-1''\<rparr>
         \<and> disk c' = {''/cache/k-1'', ''/tmp/k-2''}
         \<and> ''/tmp/k-2'' \<notin> disk (runFinalizer (h_finalizer h) c')"
    using oversized_refused_and_served_untracked
      [of ex_store 200 "ex_env True (Inr (True, 200, ?ci))" "''2''" "''u''" "''k''" ?ci
          "''/tmp/k-2''"]
    by (auto simp: ex_env_simps ex_store_simps temp_k2 l insert_commute)
  have u: "\<exists>h c'. fetchCachedFile (ex_env False (Inr (True, 200, ?ci))) ex_store ''u'' ''k''
                 = Some (Inr h, c')
         \<and> h_path h = ''/tmp/k-2'' \<and> h_finalizer h = NoFinalizer
         \<and> pathForCacheKey c' ''k'' = ''/cache/k-1''
         \<and> disk c' = {''/cache/k-1''}"
    using oversized_refused_and_served_untracked
      [of ex_store 200 "ex_env False (Inr (True, 200, ?ci))" "''2''" "''u''" "''k''" ?ci
          "''/tmp/k-2''"]
    by (auto simp: ex_env_simps ex_store_simps temp_k2)
  have m: "moveFileIntoCache (ex_env True (Inr (True, 200, ?ci))) ex_store ''k'' ''/tmp/k-2'' 200
      = Some (''/tmp/k-2'', ex_store)"
    using oversized_refused_and_served_untracked
      [of ex_store 200 "ex_env True (Inr (True, 200, ?ci))" "''2''" "''u''" "''k''" ?ci
          "''/tmp/k-2''"]
    by (simp add: ex_env_simps ex_store_simps)
  show ?thesis
    using w u m by (simp add: ex_env_simps ex_store_simps)
qed


theorem unchanged_serves_tracked_path_witness:
  "''k'' \<noteq> []
   \<and> tempFileOutcome (ex_env True (Inr (False, 0, \<lparr>ETag = [], LastModified = []\<rparr>))) = Inr ''2''
   \<and> download (ex_env True (Inr (False, 0, \<lparr>ETag = [], LastModified = []\<rparr>))) ''u''
        (cachingInfoForCacheKey ex_store (ex_md5hex ''k'')) =
          Inr (False, 0, \<lparr>ETag = [], LastModified = []\<rparr>)
   \<and> pathForCacheKey ex_store (ex_md5hex ''k'')
        \<noteq> ioutil_TempFile (uncachedPath ex_store) (ex_md5hex ''k'' @ ''-'') ''2''
   \<and> (\<exists>h c'. Fetch ex_md5hex (ex_env True (Inr (False, 0, \<lparr>ETag = [], LastModified = []\<rparr>)))
                 ex_store ''u'' ''k'' = Some (Inr h, c')
         \<and> h_path h = ''/cache/k-1''
         \<and> pathForCacheKey c' ''k'' = ''/cache/k-1''
         \<and> ''/cache/k-1'' \<in> disk c' \<and> ''/tmp/k-2'' \<notin> disk c'
         \<and> residentSize (cachedFiles c') = 10
         \<and> cachingInfoForCacheKey c' ''k'' = \<lparr>ETag = ''e1'', LastModified = []\<rparr>
         \<and> access (lookup (cachedFiles c') ''k'') = 5)"
  using unchanged_serves_tracked_path
    [of "''k''" "ex_env True (Inr (False, 0, \<lparr>ETag = [], LastModified = []\<rparr>))" "''2''"
        "''u''" ex_store ex_md5hex 0 "\<lparr>ETag = [], LastModified = []\<rparr>"]
  by (auto simp: ex_env_simps ex_store_simps temp_k2 ex_md5hex_def)

theorem bypass_leaves_store_unchanged_witness:
  "(\<exists>c'. Fetch ex_md5hex (ex_origin_env True) ex_store ''u'' [] =
            Some (Inr \<lparr>h_path = ''/tmp/uncached2'',
                       h_finalizer = CloseAndRemove ''/tmp/uncached2''\<rparr>, c')
      \<and> c'\<lparr>disk := disk ex_store\<rparr> = ex_store
      \<and> disk c' = {''/cache/k-1'', ''/tmp/uncached2''}
      \<and> ''/tmp/uncached2'' \<notin> disk (runFinalizer (CloseAndRemove ''/tmp/uncached2'') c')
      \<and> cachedFiles (runFinalizer (CloseAndRemove ''/tmp/uncached2'') c') = cachedFiles ex_store)
   \<and> (\<exists>c'. Fetch ex_md5hex (ex_origin_env False) ex_store ''u'' [] =
            Some (Inr \<lparr>h_path = ''/tmp/uncached2'', h_finalizer = NoFinalizer\<rparr>, c')
      \<and> c'\<lparr>disk := disk ex_store\<rparr> = ex_store
      \<and> disk c' = {''/cache/k-1''})"
proof -
  have w: "\<exists>c'. Fetch ex_md5hex (ex_origin_env True) ex_store ''u'' [] =
            Some (Inr \<lparr>h_path = ''/tmp/uncached2'',
                       h_finalizer = CloseAndRemove ''/tmp/uncached2''\<rparr>, c')
      \<and> c'\<lparr>disk := disk ex_store\<rparr> = ex_store
      \<and> disk c' = {''/cache/k-1'', ''/tmp/uncached2''}
      \<and> ''/tmp/uncached2'' \<notin> disk (runFinalizer (CloseAndRemove ''/tmp/uncached2'') c')
      \<and> cachedFiles (runFinalizer (CloseAndRemove ''/tmp/uncached2'') c') = cachedFiles ex_store"
    using bypass_leaves_store_unchanged[of ex_md5hex "ex_origin_env True" ex_store "''u''"]
    by (auto simp: ex_origin_env_simps ex_store_simps temp_uncached insert_commute)
  have u: "\<exists>c'. Fetch ex_md5hex (ex_origin_env False) ex_store ''u'' [] =
            Some (Inr \<lparr>h_path = ''/tmp/uncached2'', h_finalizer = NoFinalizer\<rparr>, c')
      \<and> c'\<lparr>disk := disk ex_store\<rparr> = ex_store
      \<and> disk c' = {''/cache/k-1''}"
    using bypass_leaves_store_unchanged[of ex_md5hex "ex_origin_env False" ex_store "''u''"]
    by (auto simp: ex_origin_env_simps ex_store_simps temp_uncached)
  show ?thesis
    using w u by simp
qed



end
